theory Spec2Isabelle
  imports Main "HOL-Library.Word"
begin

section \<open>Python values, errors and the types of \<open>midrasai.types\<close>\<close>

text \<open>
  The client module \<open>midrasai/client/main.py\<close> has two classes, \<open>Midras\<close> (blocking) and
  \<open>AsyncMidras\<close> (cooperative). Both talk to a remote embedding service through
  \<open>self.client.post\<close>, and to a vector store through \<open>self.index\<close>. An \<open>await\<close> is a
  suspension point only: the model below is sequential and passes the trace of HTTP
  exchanges explicitly.
\<close>

datatype pyfloat = Float64 "64 word"
  \<comment> \<open>A Python float, as its IEEE 754 bit pattern. Floats are only carried around,
      never computed with or compared.\<close>

datatype number = NInt int | NFloat pyfloat

datatype json =
    JNull
  | JBool bool
  | JNum number
  | JStr string
  | JArr "json list"
  | JObj "(string \<times> json) list"
  \<comment> \<open>What \<open>response.json()\<close> returns; \<open>JObj\<close> holds the items of the decoded dict.\<close>

datatype py_error =
    ValueError string
  | AttributeError string
  | TypeError
  | IndexError
  | JSONDecodeError
  | MalformedResponseError
  | CollaboratorError string
  \<comment> \<open>\<open>ValueError\<close> carries its message. \<open>MalformedResponseError\<close> is what the
      \<open>MidrasResponse\<close> constructor raises (see below). \<open>CollaboratorError\<close> is whatever
      \<open>pdf2image\<close>, the \<open>httpx\<close> transport or the vector store raise themselves.\<close>

type_synonym ColBERT = "number list list"
  \<comment> \<open>Modelled from the spec: \<open>ColBERT\<close> is imported from \<open>midrasai.types\<close>, which is
      outside the client module. Spec section 3: an ordered sequence of numeric vectors.\<close>

record 'img MidrasResponse =
  credits_spent :: int
  embeddings :: "ColBERT list"
  images :: "'img list option"
  \<comment> \<open>Modelled from the spec: the fields of class \<open>MidrasResponse\<close> of \<open>midrasai.types\<close>,
      as spec section 3 lists them and as \<open>embed_pdf\<close> passes them.\<close>

record MidrasRequest =
  key :: string
  mode :: string
  base64images :: "string list option"
  queries :: "string list option"
  \<comment> \<open>Modelled from the spec: class \<open>MidrasRequest\<close> of \<open>midrasai.types\<close>, with the
      keywords the client passes; a keyword that is not passed is \<open>None\<close>. Spec section 3:
      credential, mode, and either images or queries.\<close>

record http_response =
  status_code :: int
  body_text :: string
  body_json :: "json option"
  \<comment> \<open>\<open>body_text\<close> is \<open>response.text\<close>; \<open>body_json\<close> is the value of \<open>response.json()\<close>,
      \<open>None\<close> when the body is not JSON.\<close>

type_synonym exchange = "string \<times> MidrasRequest \<times> (py_error + http_response)"
  \<comment> \<open>One call of \<open>self.client.post\<close>: the path, the request, and what came back.\<close>

record ('img, 'hit) self =
  api_key :: string
  client_post :: "exchange list \<Rightarrow> string \<Rightarrow> MidrasRequest \<Rightarrow> py_error + http_response"
  index_search :: "string \<Rightarrow> ColBERT \<Rightarrow> int \<Rightarrow> py_error + 'hit"
  convert_from_path :: "string \<Rightarrow> py_error + 'img list"
  base64_encode_image_list :: "'img list \<Rightarrow> string list"
  \<comment> \<open>The object and its collaborators. The remote service is any function of the
      exchanges so far and the current request, so it may keep state. The rasterizer
      \<open>convert_from_path\<close> of \<open>pdf2image\<close>, the method \<open>base64_encode_image_list\<close>
      inherited from \<open>midrasai._abc\<close> and the vector store's \<open>search\<close> are defined outside
      the client module and are parameters.\<close>

datatype 'img pyval = Json json | Model "'img MidrasResponse"
  \<comment> \<open>What an embedding method hands back: \<open>Midras\<close> returns \<open>response.json()\<close> as it is,
      \<open>AsyncMidras\<close> returns a \<open>MidrasResponse\<close>.\<close>

subsection \<open>The \<open>MidrasResponse\<close> constructor\<close>

fun as_number :: "json \<Rightarrow> number option" where
  "as_number (JNum n) = Some n"
| "as_number _ = None"

fun as_vector :: "json \<Rightarrow> number list option" where
  "as_vector (JArr xs) = those (map as_number xs)"
| "as_vector _ = None"

fun as_ColBERT :: "json \<Rightarrow> ColBERT option" where
  "as_ColBERT (JArr vs) = those (map as_vector vs)"
| "as_ColBERT _ = None"

fun as_embeddings :: "json \<Rightarrow> ColBERT list option" where
  "as_embeddings (JArr es) = those (map as_ColBERT es)"
| "as_embeddings _ = None"

fun as_images :: "json option \<Rightarrow> 'img list option option" where
  "as_images None = Some None"
| "as_images (Some JNull) = Some None"
| "as_images (Some (JArr [])) = Some (Some [])"
| "as_images (Some _) = None"

definition MidrasResponse_init ::
  "int \<Rightarrow> ColBERT list \<Rightarrow> 'img list option \<Rightarrow> 'img MidrasResponse" where
  \<comment> \<open>Modelled from the spec: class \<open>MidrasResponse\<close> of \<open>midrasai.types\<close> is outside
      the client module. This is the keyword call
      \<open>MidrasResponse(credits_spent=..., embeddings=..., images=...)\<close> on an integer, a list
      of embeddings and an optional list of images: the fields have the shape that spec
      section 3 lists, and the object is built. No sign of \<open>credits_spent\<close> is checked.\<close>
  "MidrasResponse_init c es imgs = \<lparr>credits_spent = c, embeddings = es, images = imgs\<rparr>"

definition MidrasResponse_unpack :: "json \<Rightarrow> py_error + 'img MidrasResponse" where
  \<comment> \<open>Modelled from the spec: the call \<open>MidrasResponse(**d)\<close> on a decoded body. Unpacking
      anything but a dict is Python's \<open>TypeError\<close>; a dict goes to the constructor, which
      (spec section 4.4) fails with \<open>MalformedResponseError\<close> if required fields are absent
      or of the wrong shape. A raster image has no JSON form, so \<open>images\<close> can only be
      absent, null or the empty list.\<close>
  "MidrasResponse_unpack d =
     (case d of
        JObj kvs \<Rightarrow>
          (case map_of kvs ''credits_spent'' of
             Some (JNum (NInt c)) \<Rightarrow>
               (case map_of kvs ''embeddings'' of
                  Some e \<Rightarrow>
                    (case as_embeddings e of
                       Some es \<Rightarrow>
                         (case as_images (map_of kvs ''images'') of
                            Some imgs \<Rightarrow> Inr (MidrasResponse_init c es imgs)
                          | None \<Rightarrow> Inl MalformedResponseError)
                     | None \<Rightarrow> Inl MalformedResponseError)
                | None \<Rightarrow> Inl MalformedResponseError)
           | _ \<Rightarrow> Inl MalformedResponseError)
      | _ \<Rightarrow> Inl TypeError)"

subsection \<open>Attribute access, indexing, \<open>range\<close> and slices\<close>

fun attr_embeddings :: "'img pyval \<Rightarrow> py_error + ColBERT list" where
  "attr_embeddings (Model r) = Inr (embeddings r)"
| "attr_embeddings (Json j) = Inl (AttributeError ''embeddings'')"

fun attr_credits_spent :: "'img pyval \<Rightarrow> py_error + int" where
  "attr_credits_spent (Model r) = Inr (credits_spent r)"
| "attr_credits_spent (Json j) = Inl (AttributeError ''credits_spent'')"

definition item0 :: "'a list \<Rightarrow> py_error + 'a" where
  \<comment> \<open>\<open>xs[0]\<close>\<close>
  "item0 xs = (case xs of [] \<Rightarrow> Inl IndexError | x # _ \<Rightarrow> Inr x)"

definition py_range :: "int \<Rightarrow> int \<Rightarrow> int \<Rightarrow> py_error + int list" where
  \<comment> \<open>\<open>range(start, stop, step)\<close>, with the length CPython computes.\<close>
  "py_range start stop step =
     (if step = 0 then Inl (ValueError ''range() arg 3 must not be zero'')
      else if step > 0 then
        Inr (map (\<lambda>k. start + int k * step) [0 ..< nat ((stop - start + step - 1) div step)])
      else
        Inr (map (\<lambda>k. start + int k * step) [0 ..< nat ((start - stop - step - 1) div (- step))]))"

definition slice_index :: "int \<Rightarrow> int \<Rightarrow> int" where
  "slice_index n k = (if k < 0 then max 0 (n + k) else min n k)"

definition py_slice :: "'a list \<Rightarrow> int \<Rightarrow> int \<Rightarrow> 'a list" where
  \<comment> \<open>\<open>xs[lo:hi]\<close>\<close>
  "py_slice xs lo hi =
     (let n = int (length xs); a = slice_index n lo; b = slice_index n hi
      in take (nat (b - a)) (drop (nat a) xs))"

section \<open>The client\<close>

definition post ::
  "('img, 'hit) self \<Rightarrow> string \<Rightarrow> MidrasRequest \<Rightarrow> exchange list
     \<Rightarrow> (py_error + http_response) \<times> exchange list" where
  \<comment> \<open>\<open>self.client.post(path, json=request.model_dump(), timeout=180)\<close>, recorded in the
      trace.\<close>
  "post slf path request log =
     (let reply = client_post slf log path request in (reply, log @ [(path, request, reply)]))"

definition response_json :: "http_response \<Rightarrow> py_error + json" where
  "response_json response =
     (case body_json response of None \<Rightarrow> Inl JSONDecodeError | Some j \<Rightarrow> Inr j)"

definition images_request :: "('img, 'hit) self \<Rightarrow> 'img list \<Rightarrow> string \<Rightarrow> MidrasRequest" where
  "images_request slf pil_images m =
     \<lparr>key = api_key slf, mode = m,
      base64images = Some (base64_encode_image_list slf pil_images), queries = None\<rparr>"

definition queries_request :: "('img, 'hit) self \<Rightarrow> string list \<Rightarrow> string \<Rightarrow> MidrasRequest" where
  "queries_request slf texts m =
     \<lparr>key = api_key slf, mode = m, base64images = None, queries = Some texts\<rparr>"

subsection \<open>class \<open>Midras\<close>\<close>

definition Midras_embed_images ::
  "('img, 'hit) self \<Rightarrow> 'img list \<Rightarrow> string \<Rightarrow> exchange list
     \<Rightarrow> (py_error + 'img pyval) \<times> exchange list" where
  \<comment> \<open>Returns \<open>response.json()\<close>: no status check, no \<open>MidrasResponse\<close>. The \<open>print\<close> of
      the status code is left out.\<close>
  "Midras_embed_images slf pil_images m log =
     (case post slf ''/embed/images'' (images_request slf pil_images m) log of
        (Inl e, log') \<Rightarrow> (Inl e, log')
      | (Inr response, log') \<Rightarrow> (map_sum id Json (response_json response), log'))"

definition Midras_embed_queries ::
  "('img, 'hit) self \<Rightarrow> string list \<Rightarrow> string \<Rightarrow> exchange list
     \<Rightarrow> (py_error + 'img pyval) \<times> exchange list" where
  \<comment> \<open>Returns \<open>response.json()\<close> as well.\<close>
  "Midras_embed_queries slf texts m log =
     (case post slf ''/embed/queries'' (queries_request slf texts m) log of
        (Inl e, log') \<Rightarrow> (Inl e, log')
      | (Inr response, log') \<Rightarrow> (map_sum id Json (response_json response), log'))"

subsection \<open>class \<open>AsyncMidras\<close>\<close>

definition validate_response :: "http_response \<Rightarrow> py_error + 'img MidrasResponse" where
  \<comment> \<open>\<open>raise ValueError(response.text)\<close> from status 500 on; otherwise
      \<open>MidrasResponse(**response.json())\<close>.\<close>
  "validate_response response =
     (if status_code response \<ge> 500 then Inl (ValueError (body_text response))
      else case response_json response of
             Inl e \<Rightarrow> Inl e
           | Inr d \<Rightarrow> MidrasResponse_unpack d)"

definition AsyncMidras_embed_images ::
  "('img, 'hit) self \<Rightarrow> 'img list \<Rightarrow> string \<Rightarrow> exchange list
     \<Rightarrow> (py_error + 'img pyval) \<times> exchange list" where
  "AsyncMidras_embed_images slf pil_images m log =
     (case post slf ''/embed/images'' (images_request slf pil_images m) log of
        (Inl e, log') \<Rightarrow> (Inl e, log')
      | (Inr response, log') \<Rightarrow> (map_sum id Model (validate_response response), log'))"

definition AsyncMidras_embed_text ::
  "('img, 'hit) self \<Rightarrow> string list \<Rightarrow> string \<Rightarrow> exchange list
     \<Rightarrow> (py_error + 'img pyval) \<times> exchange list" where
  \<comment> \<open>Posts to the empty path, where \<open>Midras.embed_queries\<close> posts to
      \<open>/embed/queries\<close>.\<close>
  "AsyncMidras_embed_text slf texts m log =
     (case post slf '''' (queries_request slf texts m) log of
        (Inl e, log') \<Rightarrow> (Inl e, log')
      | (Inr response, log') \<Rightarrow> (map_sum id Model (validate_response response), log'))"

subsection \<open>\<open>embed_pdf\<close>\<close>

text \<open>
  The two \<open>embed_pdf\<close> bodies are the same text up to \<open>await\<close>; the model has one body and
  takes the class's own \<open>embed_images\<close> as \<open>emb\<close>. The loop runs over the indices that
  \<open>range(0, len(images), batch_size)\<close> yields; \<open>embeddings\<close> and \<open>total_spent\<close> are the
  accumulator.
\<close>

fun embed_pdf_loop ::
  "('img list \<Rightarrow> string \<Rightarrow> exchange list \<Rightarrow> (py_error + 'img pyval) \<times> exchange list)
     \<Rightarrow> 'img list \<Rightarrow> int \<Rightarrow> int list \<Rightarrow> ColBERT list \<times> int \<Rightarrow> exchange list
     \<Rightarrow> (py_error + ColBERT list \<times> int) \<times> exchange list" where
  "embed_pdf_loop emb imgs batch_size [] acc log = (Inr acc, log)"
| "embed_pdf_loop emb imgs batch_size (i # is) (embs, total_spent) log =
     (let image_batch = py_slice imgs i (i + batch_size) in
      case emb image_batch ''standard'' log of
        (Inl e, log') \<Rightarrow> (Inl e, log')
      | (Inr response, log') \<Rightarrow>
          (case attr_embeddings response of
             Inl e \<Rightarrow> (Inl e, log')
           | Inr es \<Rightarrow>
               (case attr_credits_spent response of
                  Inl e \<Rightarrow> (Inl e, log')
                | Inr c \<Rightarrow> embed_pdf_loop emb imgs batch_size is (embs @ es, total_spent + c) log')))"

definition embed_pdf_body ::
  "('img list \<Rightarrow> string \<Rightarrow> exchange list \<Rightarrow> (py_error + 'img pyval) \<times> exchange list)
     \<Rightarrow> ('img, 'hit) self \<Rightarrow> string \<Rightarrow> int \<Rightarrow> bool \<Rightarrow> exchange list
     \<Rightarrow> (py_error + 'img MidrasResponse) \<times> exchange list" where
  "embed_pdf_body emb slf pdf_path batch_size include_images log =
     (case convert_from_path slf pdf_path of
        Inl e \<Rightarrow> (Inl e, log)
      | Inr imgs \<Rightarrow>
          (case py_range 0 (int (length imgs)) batch_size of
             Inl e \<Rightarrow> (Inl e, log)
           | Inr is \<Rightarrow>
               (case embed_pdf_loop emb imgs batch_size is ([], 0) log of
                  (Inl e, log') \<Rightarrow> (Inl e, log')
                | (Inr (embs, total_spent), log') \<Rightarrow>
                    (Inr (MidrasResponse_init total_spent embs
                            (if include_images then Some imgs else None)), log'))))"

definition Midras_embed_pdf ::
  "('img, 'hit) self \<Rightarrow> string \<Rightarrow> int \<Rightarrow> bool \<Rightarrow> exchange list
     \<Rightarrow> (py_error + 'img MidrasResponse) \<times> exchange list" where
  "Midras_embed_pdf slf = embed_pdf_body (Midras_embed_images slf) slf"

definition AsyncMidras_embed_pdf ::
  "('img, 'hit) self \<Rightarrow> string \<Rightarrow> int \<Rightarrow> bool \<Rightarrow> exchange list
     \<Rightarrow> (py_error + 'img MidrasResponse) \<times> exchange list" where
  "AsyncMidras_embed_pdf slf = embed_pdf_body (AsyncMidras_embed_images slf) slf"

subsection \<open>\<open>query\<close> and \<open>query_text\<close>\<close>

definition query_body ::
  "(string list \<Rightarrow> string \<Rightarrow> exchange list \<Rightarrow> (py_error + 'img pyval) \<times> exchange list)
     \<Rightarrow> ('img, 'hit) self \<Rightarrow> string \<Rightarrow> string \<Rightarrow> int \<Rightarrow> exchange list
     \<Rightarrow> (py_error + 'hit) \<times> exchange list" where
  "query_body emb slf index q quantity log =
     (case emb [q] ''standard'' log of
        (Inl e, log') \<Rightarrow> (Inl e, log')
      | (Inr response, log') \<Rightarrow>
          (case attr_embeddings response of
             Inl e \<Rightarrow> (Inl e, log')
           | Inr es \<Rightarrow>
               (case item0 es of
                  Inl e \<Rightarrow> (Inl e, log')
                | Inr query_vector \<Rightarrow> (index_search slf index query_vector quantity, log'))))"

definition Midras_query ::
  "('img, 'hit) self \<Rightarrow> string \<Rightarrow> string \<Rightarrow> int \<Rightarrow> exchange list
     \<Rightarrow> (py_error + 'hit) \<times> exchange list" where
  "Midras_query slf = query_body (Midras_embed_queries slf) slf"

definition AsyncMidras_query_text ::
  "('img, 'hit) self \<Rightarrow> string \<Rightarrow> string \<Rightarrow> int \<Rightarrow> exchange list
     \<Rightarrow> (py_error + 'hit) \<times> exchange list" where
  "AsyncMidras_query_text slf = query_body (AsyncMidras_embed_text slf) slf"

subsection \<open>Dispatch on the class\<close>

datatype cls = Midras | AsyncMidras

definition embed_images ::
  "cls \<Rightarrow> ('img, 'hit) self \<Rightarrow> 'img list \<Rightarrow> string \<Rightarrow> exchange list
     \<Rightarrow> (py_error + 'img pyval) \<times> exchange list" where
  "embed_images c = (case c of Midras \<Rightarrow> Midras_embed_images | AsyncMidras \<Rightarrow> AsyncMidras_embed_images)"

definition embed_pdf ::
  "cls \<Rightarrow> ('img, 'hit) self \<Rightarrow> string \<Rightarrow> int \<Rightarrow> bool \<Rightarrow> exchange list
     \<Rightarrow> (py_error + 'img MidrasResponse) \<times> exchange list" where
  "embed_pdf c = (case c of Midras \<Rightarrow> Midras_embed_pdf | AsyncMidras \<Rightarrow> AsyncMidras_embed_pdf)"

section \<open>Notions used to state the properties\<close>

definition embed_images_result :: "cls \<Rightarrow> py_error + http_response \<Rightarrow> py_error + 'img pyval" where
  \<comment> \<open>What \<open>embed_images\<close> of the class returns once \<open>self.client.post\<close> has come back with
      \<open>reply\<close>.\<close>
  "embed_images_result c reply =
     (case reply of
        Inl e \<Rightarrow> Inl e
      | Inr response \<Rightarrow>
          (case c of
             Midras \<Rightarrow> map_sum id Json (response_json response)
           | AsyncMidras \<Rightarrow> map_sum id Model (validate_response response)))"

definition chunk_response :: "cls \<Rightarrow> exchange \<Rightarrow> py_error + 'img MidrasResponse" where
  \<comment> \<open>The chunk's response as the loop body of \<open>embed_pdf\<close> gets it: the value
      \<open>embed_images\<close> returned, read through \<open>.embeddings\<close> and \<open>.credits_spent\<close>.\<close>
  "chunk_response c x =
     (case embed_images_result c (snd (snd x)) of
        Inl e \<Rightarrow> Inl e
      | Inr (Json j) \<Rightarrow> Inl (AttributeError ''embeddings'')
      | Inr (Model r) \<Rightarrow> Inr r)"

definition chunk_exchange_of :: "('img, 'hit) self \<Rightarrow> 'img list \<Rightarrow> exchange \<Rightarrow> bool" where
  \<comment> \<open>The exchange is the request \<open>embed_images(batch)\<close> sends.\<close>
  "chunk_exchange_of slf batch x \<longleftrightarrow>
     fst x = ''/embed/images'' \<and> fst (snd x) = images_request slf batch ''standard''"

definition batches :: "int \<Rightarrow> 'a list \<Rightarrow> 'a list list" where
  \<comment> \<open>The slices \<open>images[i : i + batch_size]\<close> for \<open>i\<close> in
      \<open>range(0, len(images), batch_size)\<close>.\<close>
  "batches batch_size imgs =
     (case py_range 0 (int (length imgs)) batch_size of
        Inl e \<Rightarrow> []
      | Inr is \<Rightarrow> map (\<lambda>i. py_slice imgs i (i + batch_size)) is)"

subsection \<open>A concrete client and services to run it against\<close>

definition demo_units :: "MidrasRequest \<Rightarrow> string list" where
  "demo_units request =
     (case base64images request of
        Some xs \<Rightarrow> xs
      | None \<Rightarrow> (case queries request of Some qs \<Rightarrow> qs | None \<Rightarrow> []))"

definition demo_body :: "int \<Rightarrow> string list \<Rightarrow> json" where
  \<comment> \<open>One embedding per unit, holding the unit's length; \<open>c\<close> credits.\<close>
  "demo_body c units =
     JObj [(''credits_spent'', JNum (NInt c)),
           (''embeddings'', JArr (map (\<lambda>s. JArr [JArr [JNum (NInt (int (length s)))]]) units))]"

definition demo_service ::
  "exchange list \<Rightarrow> string \<Rightarrow> MidrasRequest \<Rightarrow> py_error + http_response" where
  \<comment> \<open>A healthy service: status 200, one credit and one embedding per unit.\<close>
  "demo_service log path request =
     Inr \<lparr>status_code = 200, body_text = ''ok'',
          body_json = Some (demo_body (int (length (demo_units request))) (demo_units request))\<rparr>"

definition const_service ::
  "http_response \<Rightarrow> exchange list \<Rightarrow> string \<Rightarrow> MidrasRequest \<Rightarrow> py_error + http_response" where
  \<comment> \<open>A service that answers every request with the same response.\<close>
  "const_service response log path request = Inr response"

definition flaky_service ::
  "exchange list \<Rightarrow> string \<Rightarrow> MidrasRequest \<Rightarrow> py_error + http_response" where
  \<comment> \<open>Healthy, except that the second request gets a 503.\<close>
  "flaky_service log path request =
     (if length log = 1
      then Inr \<lparr>status_code = 503, body_text = ''unavailable'', body_json = None\<rparr>
      else demo_service log path request)"

definition demo_self :: "(nat, ColBERT) self" where
  \<comment> \<open>Pages are numbers; a path of \<open>n\<close> characters rasterizes to the pages \<open>0 .. n - 1\<close>;
      page \<open>k\<close> is encoded as \<open>k\<close> characters; the store returns the query vector.\<close>
  "demo_self =
     \<lparr>api_key = ''secret'', client_post = demo_service,
      index_search = (\<lambda>index v quantity. Inr v),
      convert_from_path = (\<lambda>path. Inr [0 ..< length path]),
      base64_encode_image_list = map (\<lambda>n. replicate n CHR ''p'')\<rparr>"

definition self_with ::
  "(exchange list \<Rightarrow> string \<Rightarrow> MidrasRequest \<Rightarrow> py_error + http_response)
     \<Rightarrow> (nat, ColBERT) self" where
  "self_with service = demo_self\<lparr>client_post := service\<rparr>"

definition doc :: "nat \<Rightarrow> string" where
  "doc n = replicate n CHR ''d''"

section \<open>The trace of \<open>embed_pdf\<close>\<close>

lemma embed_images_eq:
  "embed_images c slf imgs m log =
     (let req = images_request slf imgs m; reply = client_post slf log ''/embed/images'' req
      in (embed_images_result c reply, log @ [(''/embed/images'', req, reply)]))"
  by (cases c)
     (auto simp: embed_images_def Midras_embed_images_def AsyncMidras_embed_images_def
        post_def embed_images_result_def Let_def split: sum.splits)

lemma loop_step:
  fixes slf :: "('a, 'hit) self"
  shows "embed_pdf_loop (embed_images c slf) imgs bs (i # is) (E, T) log =
     (let req = images_request slf (py_slice imgs i (i + bs)) ''standard'';
          reply = client_post slf log ''/embed/images'' req;
          x = (''/embed/images'', req, reply)
      in case (chunk_response c x :: py_error + 'a MidrasResponse) of
           Inl e \<Rightarrow> (Inl e, log @ [x])
         | Inr r \<Rightarrow> embed_pdf_loop (embed_images c slf) imgs bs is
                      (E @ embeddings r, T + credits_spent r) (log @ [x]))"
  by (auto simp: embed_images_eq Let_def chunk_response_def split: sum.splits pyval.splits)

lemma loop_trace:
  fixes slf :: "('a, 'hit) self"
  shows "embed_pdf_loop (embed_images c slf) imgs bs is (E, T) log = (res, log') \<Longrightarrow>
   \<exists>new. log' = log @ new \<and>
     list_all2 (\<lambda>i x. chunk_exchange_of slf (py_slice imgs i (i + bs)) x) (take (length new) is) new \<and>
     (case res of
        Inr (E', T') \<Rightarrow>
          length new = length is \<and>
          (\<exists>rs :: 'a MidrasResponse list. map (chunk_response c) new = map Inr rs \<and>
                E' = E @ concat (map embeddings rs) \<and> T' = T + sum_list (map credits_spent rs))
      | Inl e \<Rightarrow>
          (\<exists>ok x rs. new = ok @ [x] \<and> map (chunk_response c) ok = map Inr (rs :: 'a MidrasResponse list)
              \<and> (chunk_response c x :: py_error + 'a MidrasResponse) = Inl e))"
proof (induction "is" arbitrary: E T log)
  case Nil
  then show ?case by auto
next
  case (Cons i "is")
  define req where "req = images_request slf (py_slice imgs i (i + bs)) ''standard''"
  define x where "x = (''/embed/images'', req, client_post slf log ''/embed/images'' req)"
  show ?case
  proof (cases "chunk_response c x :: py_error + 'a MidrasResponse")
    case (Inl e)
    with Cons.prems have "res = Inl e" "log' = log @ [x]"
      by (auto simp: loop_step Let_def req_def x_def simp del: embed_pdf_loop.simps)
    then show ?thesis using Inl
      by (intro exI[of _ "[x]"]) (simp add: chunk_exchange_of_def x_def req_def)
  next
    case (Inr r)
    with Cons.prems have rec: "embed_pdf_loop (embed_images c slf) imgs bs is
        (E @ embeddings r, T + credits_spent r) (log @ [x]) = (res, log')"
      by (auto simp: loop_step Let_def req_def x_def simp del: embed_pdf_loop.simps)
    from Cons.IH[OF rec] obtain new where new: "log' = (log @ [x]) @ new"
      "list_all2 (\<lambda>i x. chunk_exchange_of slf (py_slice imgs i (i + bs)) x) (take (length new) is) new"
      "(case res of
        Inr (E', T') \<Rightarrow>
          length new = length is \<and>
          (\<exists>rs :: 'a MidrasResponse list. map (chunk_response c) new = map Inr rs \<and>
                E' = (E @ embeddings r) @ concat (map embeddings rs) \<and> T' = (T + credits_spent r) + sum_list (map credits_spent rs))
      | Inl e \<Rightarrow>
          (\<exists>ok x rs. new = ok @ [x] \<and> map (chunk_response c) ok = map Inr (rs :: 'a MidrasResponse list)
              \<and> (chunk_response c x :: py_error + 'a MidrasResponse) = Inl e))"
      by blast
    show ?thesis
    proof (intro exI[of _ "x # new"] conjI)
      show "log' = log @ x # new" using new(1) by simp
      show "list_all2 (\<lambda>i x. chunk_exchange_of slf (py_slice imgs i (i + bs)) x)
              (take (length (x # new)) (i # is)) (x # new)"
        using new(2) by (simp add: chunk_exchange_of_def x_def req_def)
      show "case res of
        Inr (E', T') \<Rightarrow>
          length (x # new) = length (i # is) \<and>
          (\<exists>rs :: 'a MidrasResponse list. map (chunk_response c) (x # new) = map Inr rs \<and>
                E' = E @ concat (map embeddings rs) \<and> T' = T + sum_list (map credits_spent rs))
      | Inl e \<Rightarrow>
          (\<exists>ok xa rs. x # new = ok @ [xa] \<and> map (chunk_response c) ok = map Inr (rs :: 'a MidrasResponse list)
              \<and> (chunk_response c xa :: py_error + 'a MidrasResponse) = Inl e)"
      proof (cases res)
        case (Inl e)
        with new(3) obtain ok xa rs where "new = ok @ [xa]" "map (chunk_response c) ok = map Inr (rs :: 'a MidrasResponse list)"
          "(chunk_response c xa :: py_error + 'a MidrasResponse) = Inl e" by auto
        then have "x # new = (x # ok) @ [xa] \<and> map (chunk_response c) (x # ok) = map Inr (r # rs)
            \<and> (chunk_response c xa :: py_error + 'a MidrasResponse) = Inl e"
          using Inr by simp
        then show ?thesis using Inl by (simp only: sum.case) blast
      next
        case (Inr p)
        obtain E' T' where p: "p = (E', T')" by (cases p)
        with new(3) Inr obtain rs :: "'a MidrasResponse list" where "length new = length is" "map (chunk_response c) new = map Inr rs"
           "E' = (E @ embeddings r) @ concat (map embeddings rs)" "T' = (T + credits_spent r) + sum_list (map credits_spent rs)"
          by auto
        then have "length (x # new) = length (i # is) \<and> map (chunk_response c) (x # new) = map Inr (r # rs) \<and>
                E' = E @ concat (map embeddings (r # rs)) \<and> T' = T + sum_list (map credits_spent (r # rs))"
          using \<open>chunk_response c x = Inr r\<close> by simp
        then show ?thesis using Inr p by (simp only: sum.case prod.case) blast
      qed
    qed
  qed
qed

lemma embed_pdf_unfold: "embed_pdf c slf = embed_pdf_body (embed_images c slf) slf"
  by (cases c)
     (simp_all add: embed_pdf_def embed_images_def Midras_embed_pdf_def AsyncMidras_embed_pdf_def)

lemma sum_credits_nonneg:
  "\<forall>r \<in> set rs. 0 \<le> credits_spent r \<Longrightarrow> 0 \<le> sum_list (map credits_spent rs)"
  by (induction rs) auto

lemma embed_pdf_Inr:
  fixes slf :: "('a, 'hit) self"
  assumes "embed_pdf c slf path bs inc log = (Inr r, log')"
  shows "\<exists>imgs is new (rs :: 'a MidrasResponse list).
      convert_from_path slf path = Inr imgs \<and> py_range 0 (int (length imgs)) bs = Inr is \<and>
      log' = log @ new \<and> length new = length is \<and>
      list_all2 (\<lambda>i x. chunk_exchange_of slf (py_slice imgs i (i + bs)) x) is new \<and>
      map (chunk_response c) new = map Inr rs \<and>
      r = \<lparr>credits_spent = sum_list (map credits_spent rs),
           embeddings = concat (map embeddings rs),
           images = if inc then Some imgs else None\<rparr>"
proof -
  from assms obtain imgs where imgs: "convert_from_path slf path = Inr imgs"
    by (auto simp: embed_pdf_unfold embed_pdf_body_def split: sum.splits)
  with assms obtain "is" where "is": "py_range 0 (int (length imgs)) bs = Inr is"
    by (auto simp: embed_pdf_unfold embed_pdf_body_def split: sum.splits)
  with assms imgs obtain E T where
    loop: "embed_pdf_loop (embed_images c slf) imgs bs is ([], 0) log = (Inr (E, T), log')"
    and r: "r = MidrasResponse_init T E (if inc then Some imgs else None)"
    by (auto simp: embed_pdf_unfold embed_pdf_body_def split: sum.splits prod.splits)
  from loop_trace[OF loop] obtain new and rs :: "'a MidrasResponse list" where
    new: "log' = log @ new" "length new = length is"
      "list_all2 (\<lambda>i x. chunk_exchange_of slf (py_slice imgs i (i + bs)) x) (take (length new) is) new"
      "map (chunk_response c) new = map Inr rs"
      "E = concat (map embeddings rs)" "T = sum_list (map credits_spent rs)"
    by auto
  from r new(5,6) have "r = \<lparr>credits_spent = sum_list (map credits_spent rs),
           embeddings = concat (map embeddings rs),
           images = if inc then Some imgs else None\<rparr>"
    by (simp add: MidrasResponse_init_def)
  with imgs "is" new show ?thesis by auto
qed

lemma embed_pdf_Inl:
  fixes slf :: "('a, 'hit) self"
  assumes "embed_pdf c slf path bs inc log = (Inl e, log')"
  shows "(log' = log \<and> (convert_from_path slf path = Inl e \<or>
            (\<exists>imgs. convert_from_path slf path = Inr imgs \<and>
                    py_range 0 (int (length imgs)) bs = Inl e))) \<or>
         (\<exists>ok x (rs :: 'a MidrasResponse list).
            log' = log @ ok @ [x] \<and> map (chunk_response c) ok = map Inr rs \<and>
            (chunk_response c x :: py_error + 'a MidrasResponse) = Inl e)"
proof (cases "convert_from_path slf path")
  case (Inl e')
  with assms show ?thesis by (auto simp: embed_pdf_unfold embed_pdf_body_def)
next
  case (Inr imgs)
  show ?thesis
  proof (cases "py_range 0 (int (length imgs)) bs")
    case (Inl e')
    with assms Inr show ?thesis by (auto simp: embed_pdf_unfold embed_pdf_body_def)
  next
    case ran: (Inr "is")
    obtain res l where loop: "embed_pdf_loop (embed_images c slf) imgs bs is ([], 0) log = (res, l)"
      by (cases "embed_pdf_loop (embed_images c slf) imgs bs is ([], 0) log")
    show ?thesis
    proof (cases res)
      case (Inl e')
      with assms Inr ran loop have "e' = e" "l = log'"
        by (auto simp: embed_pdf_unfold embed_pdf_body_def)
      with loop_trace[OF loop] Inl show ?thesis by auto
    next
      case resr: (Inr p)
      obtain E T where p: "p = (E, T)" by (cases p)
      with assms Inr ran loop resr have False
        by (auto simp: embed_pdf_unfold embed_pdf_body_def)
      then show ?thesis ..
    qed
  qed
qed

lemma div_small: "(a::int) < b \<Longrightarrow> 0 < b \<Longrightarrow> a div b \<le> 0"
proof -
  assume a: "a < b" "0 < b"
  then have "a div b \<le> (b - 1) div b" by (intro zdiv_mono1) auto
  also have "(b - 1) div b = 0" using a by simp
  finally show ?thesis .
qed

lemma py_range_negative_step:
  "step < 0 \<Longrightarrow> 0 \<le> stop \<Longrightarrow> py_range 0 stop step = Inr []"
  using div_small[of "0 - stop - step - 1" "- step"] by (simp add: py_range_def)

lemma py_range_zero_step:
  "py_range start stop 0 = Inl (ValueError ''range() arg 3 must not be zero'')"
  by (simp add: py_range_def)

lemma chunk_response_Midras:
  "\<exists>e. (chunk_response Midras x :: py_error + 'img MidrasResponse) = Inl e"
  by (auto simp: chunk_response_def embed_images_result_def response_json_def
      split: sum.splits option.splits)

lemma py_range_positive_step:
  assumes "1 \<le> step" and "0 \<le> stop"
  shows "py_range 0 stop step =
           Inr (map (\<lambda>k. int k * step) [0 ..< (nat stop + nat step - 1) div nat step])"
proof -
  have "(stop + step - 1) div step = int ((nat stop + nat step - 1) div nat step)"
    using assms by (simp add: zdiv_int nat_diff_distrib' nat_add_distrib)
  then show ?thesis using assms by (simp add: py_range_def)
qed

lemma py_slice_batch:
  assumes "1 \<le> bs"
  shows "py_slice xs (int k * bs) (int k * bs + bs) = take (nat bs) (drop (k * nat bs) xs)"
proof -
  define b where "b = nat bs"
  have b: "bs = int b" "0 < b" using assms by (simp_all add: b_def)
  show ?thesis
  proof (cases "k * b \<le> length xs")
    case True
    then show ?thesis unfolding b
      by (simp add: py_slice_def slice_index_def Let_def min_def nat_diff_distrib' nat_mult_distrib nat_add_distrib flip: of_nat_mult of_nat_add)
  next
    case False
    then show ?thesis unfolding b
      by (simp add: py_slice_def slice_index_def Let_def min_def flip: of_nat_mult of_nat_add)
  qed
qed

lemma batches_eq:
  assumes "1 \<le> bs"
  shows "batches bs xs =
           map (\<lambda>k. take (nat bs) (drop (k * nat bs) xs))
             [0 ..< (length xs + nat bs - 1) div nat bs]"
  using assms by (simp add: batches_def py_range_positive_step py_slice_batch comp_def)

lemma concat_takes:
  "concat (map (\<lambda>k. take b (drop (k * b) xs)) [0 ..< m]) = take (m * b) xs"
proof (induction m)
  case 0
  then show ?case by simp
next
  case (Suc m)
  have "take (m * b) xs @ take b (drop (m * b) xs) = take (m * b + b) xs"
    by (simp add: take_add)
  with Suc show ?case by (simp add: add.commute)
qed

lemma batches_partition:
  assumes "1 \<le> bs"
  shows "concat (batches bs xs) = xs"
    and "length (batches bs xs) = (length xs + nat bs - 1) div nat bs"
    and "k < length (batches bs xs) \<Longrightarrow>
           length (batches bs xs ! k) = min (nat bs) (length xs - k * nat bs)"
proof -
  let ?b = "nat bs"
  let ?m = "(length xs + ?b - 1) div ?b"
  have b: "0 < ?b" using assms by simp
  have "length xs \<le> ?m * ?b"
  proof -
    have eq: "?m * ?b + (length xs + ?b - 1) mod ?b = length xs + ?b - 1" by simp
    have lt: "(length xs + ?b - 1) mod ?b < ?b" using b by simp
    from eq lt b show ?thesis by linarith
  qed
  then show "concat (batches bs xs) = xs"
    by (simp add: batches_eq[OF assms] concat_takes)
  show "length (batches bs xs) = ?m" by (simp add: batches_eq[OF assms])
  show "k < length (batches bs xs) \<Longrightarrow>
           length (batches bs xs ! k) = min ?b (length xs - k * ?b)"
    by (simp add: batches_eq[OF assms] min.commute)
qed

lemma chunk_exchanges_requests:
  "list_all2 (\<lambda>i x. chunk_exchange_of slf (f i) x) is new \<Longrightarrow>
   map fst new = map (\<lambda>i. ''/embed/images'') is \<and>
   map (fst \<circ> snd) new = map (\<lambda>i. images_request slf (f i) ''standard'') is"
  by (induction rule: list_all2_induct) (auto simp: chunk_exchange_of_def)

section \<open>Properties of the client\<close>

text \<open>
  Claim C1. For a document of \<open>n\<close> pages and \<open>batch_size \<ge> 1\<close>, \<open>embed_pdf\<close> is to send
  one request per batch and return the concatenation of the batch responses' embeddings; 23
  pages in batches of 10 are to give three requests and 23 embeddings. In class \<open>Midras\<close>
  this fails: \<open>embed_images\<close> returns the decoded JSON, which has no attribute
  \<open>embeddings\<close>. Against a healthy service the 23-page document gives one request (of the
  first ten pages) and an \<open>AttributeError\<close>, although the reply to that request is a
  well-formed response with ten embeddings.
\<close>

theorem Midras_embed_pdf_23_pages:
  "Midras_embed_pdf demo_self (doc 23) 10 False [] =
     (Inl (AttributeError ''embeddings''),
      [(''/embed/images'', images_request demo_self [0 ..< 10] ''standard'',
        demo_service [] ''/embed/images'' (images_request demo_self [0 ..< 10] ''standard''))]) \<and>
   (validate_response
      (projr (demo_service [] ''/embed/images'' (images_request demo_self [0 ..< 10] ''standard'')))
      :: py_error + nat MidrasResponse) =
     Inr \<lparr>credits_spent = 10, embeddings = map (\<lambda>k. [[NInt k]]) [0, 1, 2, 3, 4, 5, 6, 7, 8, 9],
          images = None\<rparr>"
  by code_simp

text \<open>
  The same holds for every document with a page and every \<open>batch_size \<ge> 1\<close>: \<open>Midras\<close>
  sends one request and fails.
\<close>

lemma Midras_embed_pdf_never_aggregates:
  fixes slf :: "('img, 'hit) self"
  assumes "convert_from_path slf pdf_path = Inr imgs" and "imgs \<noteq> []" and "1 \<le> batch_size"
  shows "\<exists>e. fst (Midras_embed_pdf slf pdf_path batch_size include_images log) = Inl e \<and>
             length (snd (Midras_embed_pdf slf pdf_path batch_size include_images log))
               = Suc (length log)"
proof -
  let ?m = "(length imgs + nat batch_size - 1) div nat batch_size"
  have "0 < length imgs" using assms(2) by simp
  then have "nat batch_size \<le> length imgs + nat batch_size - 1" by linarith
  then have "0 < ?m" using assms(3) by (simp add: div_greater_zero_iff)
  then have "[0 ..< ?m] = 0 # [1 ..< ?m]" by (simp add: upt_conv_Cons)
  then obtain "is" where r: "py_range 0 (int (length imgs)) batch_size = Inr (0 # is)"
    using py_range_positive_step[OF assms(3), of "int (length imgs)"] by simp
  let ?req = "images_request slf (py_slice imgs 0 (0 + batch_size)) ''standard''"
  let ?x = "(''/embed/images'', ?req, client_post slf log ''/embed/images'' ?req)"
  obtain e where e: "(chunk_response Midras ?x :: py_error + 'img MidrasResponse) = Inl e"
    using chunk_response_Midras by blast
  have "embed_pdf_loop (embed_images Midras slf) imgs batch_size (0 # is) ([], 0) log
          = (Inl e, log @ [?x])"
    using e by (simp add: loop_step Let_def del: embed_pdf_loop.simps)
  then have "Midras_embed_pdf slf pdf_path batch_size include_images log = (Inl e, log @ [?x])"
    using assms(1) r
    by (simp add: Midras_embed_pdf_def embed_pdf_body_def embed_images_def)
  then show ?thesis by simp
qed

text \<open>
  Class \<open>AsyncMidras\<close> does what the claim says. The batches partition the pages in order;
  a returned response comes from exactly one request per batch, in order, and its embeddings
  are the concatenation of the batch responses' embeddings; and \<open>embed_pdf\<close> does return when
  every reply validates.
\<close>

lemma AsyncMidras_embed_pdf_batches:
  fixes slf :: "('img, 'hit) self"
  assumes "1 \<le> batch_size"
      and "AsyncMidras_embed_pdf slf pdf_path batch_size include_images log = (Inr r, log')"
  shows "\<exists>imgs (rs :: 'img MidrasResponse list).
           convert_from_path slf pdf_path = Inr imgs \<and>
           concat (batches batch_size imgs) = imgs \<and>
           length (batches batch_size imgs) =
             (length imgs + nat batch_size - 1) div nat batch_size \<and>
           map (fst \<circ> snd) (drop (length log) log') =
             map (\<lambda>batch. images_request slf batch ''standard'') (batches batch_size imgs) \<and>
           map (chunk_response AsyncMidras) (drop (length log) log') = map Inr rs \<and>
           embeddings r = concat (map embeddings rs)"
proof -
  have "embed_pdf AsyncMidras slf pdf_path batch_size include_images log = (Inr r, log')"
    using assms(2) by (simp add: embed_pdf_def)
  from embed_pdf_Inr[OF this] obtain imgs "is" new and rs :: "'img MidrasResponse list" where
    t: "convert_from_path slf pdf_path = Inr imgs"
       "py_range 0 (int (length imgs)) batch_size = Inr is" "log' = log @ new"
       "list_all2 (\<lambda>i x. chunk_exchange_of slf (py_slice imgs i (i + batch_size)) x) is new"
       "map (chunk_response AsyncMidras) new = map Inr rs"
       "embeddings r = concat (map embeddings rs)"
    by auto
  have "map (fst \<circ> snd) new =
          map (\<lambda>batch. images_request slf batch ''standard'') (batches batch_size imgs)"
    using chunk_exchanges_requests[OF t(4)] t(2) by (simp add: batches_def comp_def)
  with t batches_partition(1,2)[OF assms(1), of imgs] show ?thesis by auto
qed

lemma AsyncMidras_loop_returns:
  fixes slf :: "('img, 'hit) self"
  assumes "\<And>log request. \<exists>response (r :: 'img MidrasResponse).
             client_post slf log ''/embed/images'' request = Inr response \<and>
             validate_response response = Inr r"
  shows "\<exists>E' T' log'.
           embed_pdf_loop (embed_images AsyncMidras slf) imgs bs is (E, T) log
             = (Inr (E', T'), log')"
proof (induction "is" arbitrary: E T log)
  case Nil
  then show ?case by simp
next
  case (Cons i "is")
  let ?req = "images_request slf (py_slice imgs i (i + bs)) ''standard''"
  obtain response and r :: "'img MidrasResponse" where
    ok: "client_post slf log ''/embed/images'' ?req = Inr response"
        "validate_response response = Inr r"
    using assms by blast
  then have cr: "(chunk_response AsyncMidras (''/embed/images'', ?req, Inr response)
                   :: py_error + 'img MidrasResponse) = Inr r"
    by (simp add: chunk_response_def embed_images_result_def)
  from Cons.IH[of "E @ embeddings r" "T + credits_spent r"
      "log @ [(''/embed/images'', ?req, Inr response)]"]
  obtain E' T' log' where
    "embed_pdf_loop (embed_images AsyncMidras slf) imgs bs is
       (E @ embeddings r, T + credits_spent r) (log @ [(''/embed/images'', ?req, Inr response)])
       = (Inr (E', T'), log')"
    by blast
  then show ?case using ok(1) cr
    by (simp add: loop_step Let_def del: embed_pdf_loop.simps)
qed

lemma AsyncMidras_embed_pdf_returns:
  fixes slf :: "('img, 'hit) self"
  assumes "convert_from_path slf pdf_path = Inr imgs" and "batch_size \<noteq> 0"
      and "\<And>log request. \<exists>response (r :: 'img MidrasResponse).
             client_post slf log ''/embed/images'' request = Inr response \<and>
             validate_response response = Inr r"
  shows "\<exists>r log'. AsyncMidras_embed_pdf slf pdf_path batch_size include_images log = (Inr r, log')"
proof -
  obtain "is" where r: "py_range 0 (int (length imgs)) batch_size = Inr is"
    using assms(2) by (cases "0 < batch_size") (simp_all add: py_range_def)
  from AsyncMidras_loop_returns[OF assms(3), of imgs batch_size "is" "[]" 0 log]
  obtain E' T' log' where
    "embed_pdf_loop (embed_images AsyncMidras slf) imgs batch_size is ([], 0) log
       = (Inr (E', T'), log')"
    by blast
  then show ?thesis using assms(1) r
    by (simp add: AsyncMidras_embed_pdf_def embed_pdf_body_def embed_images_def)
qed

lemma AsyncMidras_embed_pdf_23_pages:
  "fst (AsyncMidras_embed_pdf demo_self (doc 23) 10 False []) =
     Inr \<lparr>credits_spent = 23,
          embeddings = map (\<lambda>k. [[NInt (int k)]]) [0 ..< 23], images = None\<rparr> \<and>
   map (\<lambda>x. (fst x, base64images (fst (snd x))))
     (snd (AsyncMidras_embed_pdf demo_self (doc 23) 10 False [])) =
     [(''/embed/images'', Some (base64_encode_image_list demo_self [0 ..< 10])),
      (''/embed/images'', Some (base64_encode_image_list demo_self [10 ..< 20])),
      (''/embed/images'', Some (base64_encode_image_list demo_self [20 ..< 23]))]"
  by code_simp

text \<open>
  Claim C2, as amended. In class \<open>AsyncMidras\<close>, \<open>embed_images\<close> and \<open>embed_text\<close> return
  what \<open>validate_response\<close> makes of the reply. A status of 500 or more gives a
  \<open>ValueError\<close> carrying the response text. Any lower status, 4xx included, is not looked
  at: the body is decoded and unpacked into a \<open>MidrasResponse\<close>, so a body that is not
  JSON gives \<open>JSONDecodeError\<close>, JSON that is not an object gives \<open>TypeError\<close>, and an
  object without \<open>credits_spent\<close> or \<open>embeddings\<close> gives \<open>MalformedResponseError\<close>. The
  counterexample shows a 404 reply returned as a response, a 503 reply raising
  \<open>ValueError\<close>, a list body raising \<open>TypeError\<close>, and class \<open>Midras\<close> returning the
  body of a 503 reply.
\<close>

theorem AsyncMidras_response_validation:
  fixes slf :: "('img, 'hit) self"
  shows
    "(client_post slf log ''/embed/images'' (images_request slf pil_images m) = Inr response \<longrightarrow>
        fst (AsyncMidras_embed_images slf pil_images m log) =
          map_sum id Model (validate_response response)) \<and>
     (client_post slf log [] (queries_request slf texts m) = Inr response \<longrightarrow>
        fst (AsyncMidras_embed_text slf texts m log) =
          map_sum id Model (validate_response response)) \<and>
     (500 \<le> status_code response \<longrightarrow>
        (validate_response response :: py_error + 'img MidrasResponse) =
          Inl (ValueError (body_text response))) \<and>
     (status_code response < 500 \<longrightarrow>
        (validate_response response :: py_error + 'img MidrasResponse) =
          (case body_json response of
             None \<Rightarrow> Inl JSONDecodeError
           | Some (JObj kvs) \<Rightarrow>
               (if map_of kvs ''credits_spent'' = None \<or> map_of kvs ''embeddings'' = None
                then Inl MalformedResponseError else MidrasResponse_unpack (JObj kvs))
           | Some _ \<Rightarrow> Inl TypeError)) \<and>
     (status_code response < 500 \<longrightarrow>
        (validate_response response :: py_error + 'img MidrasResponse) =
          validate_response (response\<lparr>status_code := 200\<rparr>))"
  by (auto simp: AsyncMidras_embed_images_def AsyncMidras_embed_text_def post_def Let_def
      validate_response_def response_json_def MidrasResponse_unpack_def
      split: option.splits json.splits number.splits)

theorem AsyncMidras_response_validation_counterexample:
  "AsyncMidras_embed_images
     (self_with (const_service
        \<lparr>status_code = 404, body_text = ''not found'', body_json = Some (demo_body 1 [''x''])\<rparr>))
     [5] ''standard'' [] =
     (Inr (Model \<lparr>credits_spent = 1, embeddings = [[[NInt 1]]], images = None\<rparr>),
      [(''/embed/images'',
        \<lparr>key = ''secret'', mode = ''standard'', base64images = Some [''ppppp''], queries = None\<rparr>,
        Inr \<lparr>status_code = 404, body_text = ''not found'',
             body_json = Some (demo_body 1 [''x''])\<rparr>)]) \<and>
   fst (AsyncMidras_embed_images
     (self_with (const_service
        \<lparr>status_code = 503, body_text = ''unavailable'', body_json = None\<rparr>))
     [5] ''standard'' []) = Inl (ValueError ''unavailable'') \<and>
   fst (AsyncMidras_embed_images
     (self_with (const_service
        \<lparr>status_code = 200, body_text = ''list'', body_json = Some (JArr [])\<rparr>))
     [5] ''standard'' []) = Inl TypeError \<and>
   fst (Midras_embed_images
     (self_with (const_service
        \<lparr>status_code = 503, body_text = ''empty'', body_json = Some (JObj [])\<rparr>))
     [5] ''standard'' []) = Inr (Json (JObj []))"
  by code_simp

theorem AsyncMidras_response_validation_witness:
  "fst (AsyncMidras_embed_images
     (self_with (const_service
        \<lparr>status_code = 503, body_text = ''unavailable'', body_json = None\<rparr>))
     [5] ''standard'' []) = Inl (ValueError ''unavailable'') \<and>
   fst (AsyncMidras_embed_text
     (self_with (const_service
        \<lparr>status_code = 200, body_text = ''partial'',
         body_json = Some (JObj [(''credits_spent'', JNum (NInt 1))])\<rparr>))
     [''q''] ''standard'' []) = Inl MalformedResponseError"
proof -
  let ?down = "\<lparr>status_code = 503, body_text = ''unavailable'', body_json = None\<rparr>"
  let ?part = "\<lparr>status_code = 200, body_text = ''partial'',
         body_json = Some (JObj [(''credits_spent'', JNum (NInt 1))])\<rparr>"
  have a: "client_post (self_with (const_service ?down)) [] ''/embed/images''
             (images_request (self_with (const_service ?down)) [5] ''standard'') = Inr ?down"
    by code_simp
  have b: "client_post (self_with (const_service ?part)) [] []
             (queries_request (self_with (const_service ?part)) [''q''] ''standard'') = Inr ?part"
    by code_simp
  from AsyncMidras_response_validation
         [of "self_with (const_service ?down)" "[]" "[5]" "''standard''" ?down "[]"] a
  have 1: "fst (AsyncMidras_embed_images (self_with (const_service ?down)) [5] ''standard'' [])
             = Inl (ValueError ''unavailable'')"
    by simp
  from AsyncMidras_response_validation
         [of "self_with (const_service ?part)" "[]" "[]" "''standard''" ?part "[''q'']"] b
  have 2: "fst (AsyncMidras_embed_text (self_with (const_service ?part)) [''q''] ''standard'' [])
             = Inl MalformedResponseError"
    by simp
  from 1 2 show ?thesis by simp
qed

text \<open>
  Claim C3. \<open>Midras\<close> and \<open>AsyncMidras\<close> are to give the same results and errors. They do
  not: on a one-page document and a healthy service \<open>Midras.embed_pdf\<close> raises
  \<open>AttributeError\<close> where \<open>AsyncMidras.embed_pdf\<close> returns the response;
  \<open>embed_images\<close> returns the decoded JSON in one and a \<open>MidrasResponse\<close> in the other;
  \<open>embed_queries\<close> posts to \<open>/embed/queries\<close> and \<open>embed_text\<close> to the empty path;
  \<open>query\<close> raises \<open>AttributeError\<close> where \<open>query_text\<close> returns the search result.
\<close>

theorem Midras_AsyncMidras_differ:
  "fst (Midras_embed_pdf demo_self (doc 1) 10 False []) = Inl (AttributeError ''embeddings'') \<and>
   fst (AsyncMidras_embed_pdf demo_self (doc 1) 10 False []) =
     Inr \<lparr>credits_spent = 1, embeddings = [[[NInt 0]]], images = None\<rparr> \<and>
   fst (Midras_embed_images demo_self [3] ''standard'' []) =
     Inr (Json (demo_body 1 [''ppp''])) \<and>
   fst (AsyncMidras_embed_images demo_self [3] ''standard'' []) =
     Inr (Model \<lparr>credits_spent = 1, embeddings = [[[NInt 3]]], images = None\<rparr>) \<and>
   map fst (snd (Midras_embed_queries demo_self [''abc''] ''standard'' [])) = [''/embed/queries''] \<and>
   map fst (snd (AsyncMidras_embed_text demo_self [''abc''] ''standard'' [])) = [[]] \<and>
   fst (Midras_query demo_self ''idx'' ''abc'' 5 []) = Inl (AttributeError ''embeddings'') \<and>
   fst (AsyncMidras_query_text demo_self ''idx'' ''abc'' 5 []) = Inr [[NInt 3]]"
  by code_simp

text \<open>
  Claim C4, as amended. When \<open>embed_pdf\<close> returns a response, every exchange it made gave
  the loop a chunk response and the response's \<open>credits_spent\<close> is the sum of the chunk
  responses' \<open>credits_spent\<close>; it is not negative when no chunk response's
  \<open>credits_spent\<close> is. (In class \<open>Midras\<close> no exchange gives the loop a chunk response,
  so a response is returned only when no request was sent.) Nothing in the client checks a
  sign: the counterexample is a two-page document against a service that answers each
  request with \<open>credits_spent = -2\<close>, for which \<open>AsyncMidras.embed_pdf\<close> returns
  \<open>credits_spent = -4\<close>.
\<close>

theorem embed_pdf_credits_sum:
  fixes slf :: "('img, 'hit) self"
  assumes "embed_pdf c slf pdf_path batch_size include_images log = (Inr r, log')"
  shows "\<exists>rs :: 'img MidrasResponse list.
           map (chunk_response c) (drop (length log) log') = map Inr rs \<and>
           credits_spent r = sum_list (map credits_spent rs) \<and>
           ((\<forall>x \<in> set rs. 0 \<le> credits_spent x) \<longrightarrow> 0 \<le> credits_spent r)"
proof -
  from embed_pdf_Inr[OF assms] obtain new and rs :: "'img MidrasResponse list" where
    "log' = log @ new" "map (chunk_response c) new = map Inr rs"
    "credits_spent r = sum_list (map credits_spent rs)"
    by auto
  then show ?thesis using sum_credits_nonneg[of rs] by auto
qed

theorem embed_pdf_credits_sum_counterexample:
  "embed_pdf AsyncMidras
     (self_with (const_service
        \<lparr>status_code = 200, body_text = ''ok'', body_json = Some (demo_body (- 2) [''x''])\<rparr>))
     (doc 2) 1 False [] =
     (Inr \<lparr>credits_spent = - 4, embeddings = [[[NInt 1]], [[NInt 1]]], images = None\<rparr>,
      [(''/embed/images'',
        \<lparr>key = ''secret'', mode = ''standard'', base64images = Some [[]], queries = None\<rparr>,
        Inr \<lparr>status_code = 200, body_text = ''ok'',
             body_json = Some (demo_body (- 2) [''x''])\<rparr>),
       (''/embed/images'',
        \<lparr>key = ''secret'', mode = ''standard'', base64images = Some [''p''], queries = None\<rparr>,
        Inr \<lparr>status_code = 200, body_text = ''ok'',
             body_json = Some (demo_body (- 2) [''x''])\<rparr>)]) \<and>
   \<not> (0 :: int) \<le> - 4"
  by code_simp

theorem embed_pdf_credits_sum_witness:
  "embed_pdf AsyncMidras demo_self (doc 5) 2 False [] =
     (Inr \<lparr>credits_spent = 5, embeddings = map (\<lambda>k. [[NInt k]]) [0, 1, 2, 3, 4], images = None\<rparr>,
      snd (embed_pdf AsyncMidras demo_self (doc 5) 2 False [])) \<and>
   (\<exists>rs :: nat MidrasResponse list.
      map (chunk_response AsyncMidras)
        (drop (length ([] :: exchange list)) (snd (embed_pdf AsyncMidras demo_self (doc 5) 2 False [])))
        = map Inr rs \<and>
      (5 :: int) = sum_list (map credits_spent rs))"
proof -
  have run: "embed_pdf AsyncMidras demo_self (doc 5) 2 False [] =
     (Inr \<lparr>credits_spent = 5, embeddings = map (\<lambda>k. [[NInt k]]) [0, 1, 2, 3, 4], images = None\<rparr>,
      snd (embed_pdf AsyncMidras demo_self (doc 5) 2 False []))"
    by code_simp
  from embed_pdf_credits_sum[OF run] run show ?thesis by auto
qed

text \<open>
  Claim C5, as amended. For a document that rasterizes, \<open>batch_size = 0\<close> makes \<open>embed_pdf\<close>
  fail with the \<open>ValueError\<close> of \<open>range\<close> before any request is sent, and a negative
  \<open>batch_size\<close> does not make it fail. The counterexample shows both on a three-page
  document; no error of the kind the claim names is raised.
\<close>

theorem embed_pdf_nonpositive_batch_size:
  fixes slf :: "('img, 'hit) self"
  assumes "convert_from_path slf pdf_path = Inr imgs" and "batch_size \<le> 0"
  shows "embed_pdf c slf pdf_path batch_size include_images log =
           (if batch_size = 0 then Inl (ValueError ''range() arg 3 must not be zero'')
            else Inr \<lparr>credits_spent = 0, embeddings = [],
                      images = if include_images then Some imgs else None\<rparr>, log)"
proof (cases "batch_size = 0")
  case True
  with assms show ?thesis
    by (simp add: embed_pdf_unfold embed_pdf_body_def py_range_zero_step)
next
  case False
  with assms have "batch_size < 0" by simp
  with assms False show ?thesis
    by (simp add: embed_pdf_unfold embed_pdf_body_def py_range_negative_step
        MidrasResponse_init_def)
qed

theorem embed_pdf_batch_size_counterexample:
  "embed_pdf Midras demo_self (doc 3) (- 1) False [] =
     (Inr \<lparr>credits_spent = 0, embeddings = [], images = None\<rparr>, []) \<and>
   embed_pdf AsyncMidras demo_self (doc 3) (- 1) False [] =
     (Inr \<lparr>credits_spent = 0, embeddings = [], images = None\<rparr>, []) \<and>
   embed_pdf Midras demo_self (doc 3) 0 False [] =
     (Inl (ValueError ''range() arg 3 must not be zero''), []) \<and>
   embed_pdf AsyncMidras demo_self (doc 3) 0 False [] =
     (Inl (ValueError ''range() arg 3 must not be zero''), [])"
  by code_simp

theorem embed_pdf_nonpositive_batch_size_witness:
  "convert_from_path demo_self (doc 3) = Inr [0, 1, 2] \<and> (0 :: int) \<le> 0 \<and>
   embed_pdf AsyncMidras demo_self (doc 3) 0 True [] =
     (Inl (ValueError ''range() arg 3 must not be zero''), [])"
proof -
  have p: "convert_from_path demo_self (doc 3) = Inr [0, 1, 2]" by code_simp
  have n: "(0 :: int) \<le> 0" by simp
  from embed_pdf_nonpositive_batch_size[OF p n, of AsyncMidras True "[]"] p
  show ?thesis by simp
qed

text \<open>
  Claim C6, as amended. \<open>embed_pdf\<close> of a document that rasterizes to no page returns, for
  every \<open>batch_size\<close> other than zero, a response with no credits and no embeddings, and
  sends no request. \<open>embed_images\<close> of the empty list sends one request and returns what the
  reply gives. The counterexample shows \<open>embed_images\<close> of the empty list raising an error
  and returning seven credits, and \<open>embed_pdf\<close> of a zero-page document failing for
  \<open>batch_size = 0\<close>.
\<close>

theorem empty_input:
  fixes slf :: "('img, 'hit) self"
  shows "(convert_from_path slf pdf_path = Inr [] \<and> batch_size \<noteq> 0 \<longrightarrow>
            embed_pdf c slf pdf_path batch_size include_images log =
              (Inr \<lparr>credits_spent = 0, embeddings = [],
                    images = if include_images then Some [] else None\<rparr>, log)) \<and>
         embed_images c slf [] m log =
           (let request = images_request slf [] m;
                reply = client_post slf log ''/embed/images'' request
            in (embed_images_result c reply, log @ [(''/embed/images'', request, reply)]))"
proof -
  have "py_range 0 0 batch_size = Inr []" if "batch_size \<noteq> 0"
    using that py_range_negative_step[of batch_size 0] by (cases "batch_size < 0") (simp_all add: py_range_def)
  then show ?thesis
    by (simp add: embed_pdf_unfold embed_pdf_body_def MidrasResponse_init_def embed_images_eq)
qed

theorem empty_input_counterexample:
  "embed_images AsyncMidras
     (self_with (const_service \<lparr>status_code = 503, body_text = ''unavailable'', body_json = None\<rparr>))
     [] ''standard'' [] =
     (Inl (ValueError ''unavailable''),
      [(''/embed/images'',
        \<lparr>key = ''secret'', mode = ''standard'', base64images = Some [], queries = None\<rparr>,
        Inr \<lparr>status_code = 503, body_text = ''unavailable'', body_json = None\<rparr>)]) \<and>
   fst (embed_images AsyncMidras
     (self_with (const_service \<lparr>status_code = 200, body_text = ''ok'', body_json = Some (demo_body 7 [''x''])\<rparr>))
     [] ''standard'' []) =
     Inr (Model \<lparr>credits_spent = 7, embeddings = [[[NInt 1]]], images = None\<rparr>) \<and>
   embed_pdf AsyncMidras demo_self (doc 0) 0 False [] =
     (Inl (ValueError ''range() arg 3 must not be zero''), [])"
  by code_simp

theorem empty_input_witness:
  "convert_from_path demo_self (doc 0) = Inr [] \<and>
   embed_pdf AsyncMidras demo_self (doc 0) 10 False [] =
     (Inr \<lparr>credits_spent = 0, embeddings = [], images = None\<rparr>, []) \<and>
   fst (embed_images AsyncMidras demo_self [] ''standard'' []) =
     Inr (Model \<lparr>credits_spent = 0, embeddings = [], images = None\<rparr>)"
proof -
  have p: "convert_from_path demo_self (doc 0) = Inr []" by code_simp
  have e: "fst (embed_images AsyncMidras demo_self [] ''standard'' []) =
     Inr (Model \<lparr>credits_spent = 0, embeddings = [], images = None\<rparr>)" by code_simp
  from empty_input[of demo_self "doc 0" 10 AsyncMidras False "[]" "''standard''"] p e
  show ?thesis by simp
qed

text \<open>
  Claim C7. If \<open>embed_images\<close> fails on any exchange that \<open>embed_pdf\<close> made, then
  \<open>embed_pdf\<close> fails with that same error, so no response (no embeddings, no credits of the
  earlier chunks) is returned, and the failed exchange is the last one made.
\<close>

theorem embed_pdf_aborts_on_chunk_failure:
  fixes slf :: "('img, 'hit) self"
  assumes "embed_pdf c slf pdf_path batch_size include_images log = (res, log')"
      and "x \<in> set (drop (length log) log')"
      and "(embed_images_result c (snd (snd x)) :: py_error + 'img pyval) = Inl e"
  shows "res = Inl e \<and> x = last log'"
proof -
  have bad: "(chunk_response c x :: py_error + 'img MidrasResponse) = Inl e"
    using assms(3) by (simp add: chunk_response_def)
  have good: "x \<notin> set ok" if "map (chunk_response c) ok = map Inr rs"
    for ok and rs :: "'img MidrasResponse list"
  proof
    assume "x \<in> set ok"
    then have "chunk_response c x \<in> chunk_response c ` set ok" by (rule imageI)
    also have "\<dots> = set (map (chunk_response c) ok)" by simp
    also have "\<dots> = Inr ` set rs" using that by simp
    finally show False using bad by auto
  qed
  show ?thesis
  proof (cases res)
    case (Inr r)
    from embed_pdf_Inr[OF assms(1)[unfolded Inr]] obtain new and rs :: "'img MidrasResponse list"
      where "log' = log @ new" "map (chunk_response c) new = map Inr rs" by auto
    with good assms(2) show ?thesis by auto
  next
    case (Inl e')
    from embed_pdf_Inl[OF assms(1)[unfolded Inl]] assms(2)
    obtain ok y and rs :: "'img MidrasResponse list" where
      tr: "log' = log @ ok @ [y]" "map (chunk_response c) ok = map Inr rs"
          "(chunk_response c y :: py_error + 'img MidrasResponse) = Inl e'"
      by auto
    with assms(2) good have "x = y" by auto
    with tr bad Inl show ?thesis by auto
  qed
qed

theorem embed_pdf_aborts_on_chunk_failure_witness:
  "snd (embed_pdf AsyncMidras (self_with flaky_service) (doc 5) 2 False []) ! 1
     \<in> set (drop (length ([] :: exchange list))
           (snd (embed_pdf AsyncMidras (self_with flaky_service) (doc 5) 2 False []))) \<and>
   (embed_images_result AsyncMidras
      (snd (snd (snd (embed_pdf AsyncMidras (self_with flaky_service) (doc 5) 2 False []) ! 1)))
      :: py_error + nat pyval) = Inl (ValueError ''unavailable'') \<and>
   fst (embed_pdf AsyncMidras (self_with flaky_service) (doc 5) 2 False [])
     = Inl (ValueError ''unavailable'') \<and>
   length (snd (embed_pdf AsyncMidras (self_with flaky_service) (doc 5) 2 False [])) = 2"
proof -
  let ?run = "embed_pdf AsyncMidras (self_with flaky_service) (doc 5) 2 False []"
  have run: "?run = (fst ?run, snd ?run)" by simp
  have mem: "snd ?run ! 1 \<in> set (drop (length ([] :: exchange list)) (snd ?run))"
    by code_simp
  have bad: "(embed_images_result AsyncMidras (snd (snd (snd ?run ! 1))) :: py_error + nat pyval)
      = Inl (ValueError ''unavailable'')"
    by code_simp
  have len: "length (snd ?run) = 2" by code_simp
  from embed_pdf_aborts_on_chunk_failure[OF run mem bad] mem bad len show ?thesis by simp
qed

text \<open>
  Claim C8. A response returned by \<open>embed_pdf\<close> has, with \<open>include_images\<close>, the rasterized
  pages in their order in the \<open>images\<close> field; without it the field is \<open>None\<close>, which is
  not the empty list.
\<close>

theorem embed_pdf_images_field:
  fixes slf :: "('img, 'hit) self"
  assumes "embed_pdf c slf pdf_path batch_size include_images log = (Inr r, log')"
  shows "\<exists>pages. convert_from_path slf pdf_path = Inr pages \<and>
           images r = (if include_images then Some pages else None) \<and>
           (include_images \<or> images r \<noteq> Some [])"
  using embed_pdf_Inr[OF assms] by auto

theorem embed_pdf_images_field_witness:
  "images (projr (fst (embed_pdf AsyncMidras demo_self (doc 3) 2 True []))) = Some [0, 1, 2] \<and>
   images (projr (fst (embed_pdf AsyncMidras demo_self (doc 0) 2 False []))) = None"
proof -
  let ?a = "embed_pdf AsyncMidras demo_self (doc 3) 2 True []"
  let ?b = "embed_pdf AsyncMidras demo_self (doc 0) 2 False []"
  have a: "?a = (Inr (projr (fst ?a)), snd ?a)" by code_simp
  have b: "?b = (Inr (projr (fst ?b)), snd ?b)" by code_simp
  have pa: "convert_from_path demo_self (doc 3) = Inr [0, 1, 2]" by code_simp
  have pb: "convert_from_path demo_self (doc 0) = Inr []" by code_simp
  from embed_pdf_images_field[OF a] embed_pdf_images_field[OF b] pa pb show ?thesis by simp
qed

text \<open>
  Claim C9. When the service answers the query with an empty \<open>embeddings\<close> list, \<open>query\<close>
  and \<open>query_text\<close> are said to fail with an index error at \<open>embeddings[0]\<close>.
  \<open>AsyncMidras.query_text\<close> does. \<open>Midras.query\<close> never gets to the index: \<open>embed_queries\<close>
  returns the decoded JSON, and \<open>.embeddings\<close> raises \<open>AttributeError\<close>.
\<close>

theorem Midras_query_empty_embeddings:
  "fst (Midras_query
     (self_with (const_service
        \<lparr>status_code = 200, body_text = ''ok'', body_json = Some (demo_body 0 [])\<rparr>))
     ''idx'' ''abc'' 5 []) = Inl (AttributeError ''embeddings'') \<and>
   fst (AsyncMidras_query_text
     (self_with (const_service
        \<lparr>status_code = 200, body_text = ''ok'', body_json = Some (demo_body 0 [])\<rparr>))
     ''idx'' ''abc'' 5 []) = Inl IndexError"
  by code_simp

text \<open>
  In general: \<open>query_text\<close> raises \<open>IndexError\<close> whenever the validated response has no
  embedding, and \<open>query\<close> fails whatever the service replies.
\<close>

lemma AsyncMidras_query_text_IndexError:
  fixes slf :: "('img, 'hit) self"
  assumes "client_post slf log [] (queries_request slf [q] ''standard'') = Inr response"
      and "validate_response response = Inr (r :: 'img MidrasResponse)"
      and "embeddings r = []"
  shows "fst (AsyncMidras_query_text slf index q quantity log) = Inl IndexError"
  using assms
  by (simp add: AsyncMidras_query_text_def query_body_def AsyncMidras_embed_text_def post_def
      Let_def item0_def)

lemma Midras_query_never_searches:
  fixes slf :: "('img, 'hit) self"
  shows "\<exists>e. fst (Midras_query slf index q quantity log) = Inl e"
  by (auto simp: Midras_query_def query_body_def Midras_embed_queries_def post_def
      Let_def response_json_def split: sum.splits option.splits)

text \<open>
  Claim C10. With a negative \<open>batch_size\<close> the range is empty: \<open>embed_pdf\<close> of a document
  that rasterizes sends no request (the trace is unchanged) and returns a response with no
  credits and no embeddings.
\<close>

theorem embed_pdf_negative_batch_size:
  fixes slf :: "('img, 'hit) self"
  assumes "convert_from_path slf pdf_path = Inr imgs" and "batch_size < 0"
  shows "embed_pdf c slf pdf_path batch_size include_images log =
           (Inr \<lparr>credits_spent = 0, embeddings = [],
                 images = if include_images then Some imgs else None\<rparr>, log)"
  using assms
  by (simp add: embed_pdf_unfold embed_pdf_body_def py_range_negative_step
      MidrasResponse_init_def)

theorem embed_pdf_negative_batch_size_witness:
  "convert_from_path demo_self (doc 3) = Inr [0, 1, 2] \<and> (- 4 :: int) < 0 \<and>
   embed_pdf Midras demo_self (doc 3) (- 4) True [] =
     (Inr \<lparr>credits_spent = 0, embeddings = [], images = Some [0, 1, 2]\<rparr>, []) \<and>
   embed_pdf AsyncMidras demo_self (doc 3) (- 4) False [] =
     (Inr \<lparr>credits_spent = 0, embeddings = [], images = None\<rparr>, [])"
proof -
  have p: "convert_from_path demo_self (doc 3) = Inr [0, 1, 2]" by code_simp
  have n: "(- 4 :: int) < 0" by simp
  from embed_pdf_negative_batch_size[OF p n, of Midras True "[]"]
       embed_pdf_negative_batch_size[OF p n, of AsyncMidras False "[]"] p
  show ?thesis by simp
qed

end
